theory Spec2Isabelle
  imports Complex_Main
begin

section \<open>eodatasets3.images: measurement grids, valid-data masks and stretch ranges\<close>

text \<open>
  A shallow embedding of \<^verbatim>\<open>src/eodatasets3/images.py\<close>: the \<^verbatim>\<open>MeasurementBundler\<close>
  class (recording images per grid, growing the valid-data masks, naming the grids,
  consuming the masks into geometry), \<^verbatim>\<open>_grid_to_poly\<close> and
  \<^verbatim>\<open>read_valid_mask_and_value_range\<close>.

  Python dictionaries keep insertion order and the code depends on it (\<^verbatim>\<open>sorted\<close> is
  stable, \<^verbatim>\<open>popitem\<close> takes the newest entry), so every dictionary is an association
  list in insertion order with unique keys. A method that mutates the bundler takes the
  bundler and returns the new one; a method that can raise returns the exception beside
  the bundler as it stands when the exception leaves the method.
\<close>

subsection \<open>Pixel values and arrays\<close>

text \<open>
  A pixel value or a nodata value is a number, an infinity or NaN. Integers are the
  finite values without a fractional part; the array's dtype says which kind it holds.
\<close>

datatype val = Fin rat | PInf | NInf | NaN

text \<open>\<^verbatim>\<open>math.isnan\<close>, \<^verbatim>\<open>numpy.isfinite\<close>, and the IEEE comparison \<^verbatim>\<open>!=\<close> of two values of
  one dtype, under which NaN differs from everything, itself included.\<close>

definition isnan :: "val \<Rightarrow> bool" where
  "isnan v = (v = NaN)"

definition isfinite :: "val \<Rightarrow> bool" where
  "isfinite v = (case v of Fin r \<Rightarrow> True | PInf \<Rightarrow> False | NInf \<Rightarrow> False | NaN \<Rightarrow> False)"

definition ne :: "val \<Rightarrow> val \<Rightarrow> bool" where
  "ne a b = (isnan a \<or> isnan b \<or> a \<noteq> b)"

datatype dtype_kind = Floating | Integral

text \<open>
  A two-dimensional numpy array: its shape and its cells in row-major order
  (\<open>length (cells a) = nrows a * ncols a\<close> for every array numpy builds).
\<close>

record 'a ndarray =
  nrows :: nat
  ncols :: nat
  cells :: "'a list"

text \<open>
  A numeric array is its dtype's kind, its cells, and the conversion numpy makes before it
  compares the array with a Python scalar: both sides are converted to the common dtype of
  the array and the scalar, and the converted values are compared. \<open>as_common img n x\<close> is
  \<open>x\<close> (a pixel, or the scalar \<open>n\<close> itself) so converted for a comparison with the scalar
  \<open>n\<close>. The conversion rounds to the dtype, as floating-point arithmetic does, so it is a
  field of the array and not a function defined here.
\<close>

record image =
  dtype :: dtype_kind
  pixels :: "val ndarray"
  as_common :: "val \<Rightarrow> val \<Rightarrow> val"

text \<open>One cell of \<^verbatim>\<open>img != n\<close>.\<close>

definition array_ne :: "image \<Rightarrow> val \<Rightarrow> val \<Rightarrow> bool" where
  "array_ne img n p = ne (as_common img n p) (as_common img n n)"

definition map_array :: "('a \<Rightarrow> 'b) \<Rightarrow> 'a ndarray \<Rightarrow> 'b ndarray" where
  "map_array f a = \<lparr>nrows = nrows a, ncols = ncols a, cells = map f (cells a)\<rparr>"

datatype error =
    DuplicateMeasurement string "string \<times> string option" string
  | AttributeError
  | BroadcastError
  | IndexError
  | TooManyGrids nat
  | ImportError
  | PercentileOutOfRange

text \<open>
  An in-place operator \<^verbatim>\<open>m op= v\<close> on arrays. numpy broadcasts \<open>v\<close> to the shape of
  \<open>m\<close>: an axis of \<open>v\<close> must have the length of that axis of \<open>m\<close>, or length one (its
  single entry is then repeated). Any other shape raises and leaves \<open>m\<close> as it was.
\<close>

definition broadcastable :: "'b ndarray \<Rightarrow> 'a ndarray \<Rightarrow> bool" where
  "broadcastable v m =
     ((nrows v = nrows m \<or> nrows v = 1) \<and> (ncols v = ncols m \<or> ncols v = 1))"

definition bcast_cell :: "'b ndarray \<Rightarrow> nat \<Rightarrow> nat \<Rightarrow> 'b" where
  "bcast_cell v i j =
     cells v ! ((if nrows v = 1 then 0 else i) * ncols v + (if ncols v = 1 then 0 else j))"

definition inplace :: "('a \<Rightarrow> 'b \<Rightarrow> 'a) \<Rightarrow> 'a ndarray \<Rightarrow> 'b ndarray \<Rightarrow> error + 'a ndarray" where
  "inplace f m v =
     (if broadcastable v m
      then Inr \<lparr>nrows = nrows m, ncols = ncols m,
                cells = map (\<lambda>k. f (cells m ! k) (bcast_cell v (k div ncols m) (k mod ncols m)))
                            [0..<length (cells m)]\<rparr>
      else Inl BroadcastError)"

definition count_true :: "bool ndarray \<Rightarrow> nat" where
  "count_true m = length (filter (\<lambda>b. b) (cells m))"

subsection \<open>Grids\<close>

text \<open>
  \<^verbatim>\<open>GeoBox\<close> and \<^verbatim>\<open>CRS\<close> come from the odc-geo library. A grid is its shape
  \<open>(rows, columns)\<close>, its affine transform and its CRS (which may be absent); a CRS is the
  text it was given as and the EPSG code it resolves to, when it resolves to one. Two
  grids are the same dictionary key when the three components agree.
\<close>

record affine =
  aff_a :: rat
  aff_b :: rat
  aff_xoff :: rat
  aff_d :: rat
  aff_e :: rat
  aff_yoff :: rat

record crs =
  crs_str :: string
  epsg :: "nat option"

record geobox =
  shape :: "nat \<times> nat"
  affine :: affine
  crs :: "crs option"

text \<open>Python's \<^verbatim>\<open>str\<close> of a non-negative integer.\<close>

definition digit :: "nat \<Rightarrow> char" where
  "digit n = ''0123456789'' ! n"

fun dec :: "nat \<Rightarrow> string" where
  "dec n = (if n < 10 then [digit n] else dec (n div 10) @ [digit (n mod 10)])"

declare dec.simps [simp del]

text \<open>\<^verbatim>\<open>GeoBox(shape, affine, epsg)\<close>: the same grid with the CRS rebuilt from its code alone.\<close>

definition crs_of_epsg :: "nat \<Rightarrow> crs" where
  "crs_of_epsg n = \<lparr>crs_str = ''EPSG:'' @ dec n, epsg = Some n\<rparr>"

definition GeoBox :: "nat \<times> nat \<Rightarrow> affine \<Rightarrow> nat \<Rightarrow> geobox" where
  "GeoBox sh aff n = \<lparr>shape = sh, affine = aff, crs = Some (crs_of_epsg n)\<rparr>"

subsection \<open>The bundler\<close>

text \<open>A \<^verbatim>\<open>_MeasurementLocation\<close> is a path and an optional layer.\<close>

type_synonym location = "string \<times> string option"

type_synonym measurements = "(string \<times> location) list"

record bundler =
  measurements_per_grid :: "(geobox \<times> measurements) list"
  mask_by_grid :: "(geobox \<times> bool ndarray) list"

definition init :: bundler where
  "init = \<lparr>measurements_per_grid = [], mask_by_grid = []\<rparr>"

text \<open>\<^verbatim>\<open>d[k] = v\<close>: an existing key keeps its place, a new key goes to the end.\<close>

fun dict_set :: "('k \<times> 'v) list \<Rightarrow> 'k \<Rightarrow> 'v \<Rightarrow> ('k \<times> 'v) list" where
  "dict_set [] k v = [(k, v)]"
| "dict_set ((k', v') # d) k v = (if k' = k then (k, v) # d else (k', v') # dict_set d k v)"

text \<open>The loop that opens \<^verbatim>\<open>record_image\<close>: the location already stored under the name
  in the first grid that has it.\<close>

fun find_duplicate :: "string \<Rightarrow> (geobox \<times> measurements) list \<Rightarrow> location option" where
  "find_duplicate name [] = None"
| "find_duplicate name ((g, ms) # rest) =
     (case map_of ms name of Some loc \<Rightarrow> Some loc | None \<Rightarrow> find_duplicate name rest)"

text \<open>\<^verbatim>\<open>self._measurements_per_grid[grid][name] = loc\<close> on a \<^verbatim>\<open>defaultdict(dict)\<close>.\<close>

definition add_measurement ::
  "geobox \<Rightarrow> string \<Rightarrow> location \<Rightarrow> (geobox \<times> measurements) list \<Rightarrow> (geobox \<times> measurements) list" where
  "add_measurement grid name loc mpg =
     dict_set mpg grid
       (dict_set (case map_of mpg grid of None \<Rightarrow> [] | Some ms \<Rightarrow> ms) name loc)"

definition default_nodata :: "image \<Rightarrow> val option \<Rightarrow> val" where
  "default_nodata img nodata =
     (case nodata of
        None \<Rightarrow> (if dtype img = Floating then NaN else Fin 0)
      | Some n \<Rightarrow> n)"

definition valid_values :: "image \<Rightarrow> val \<Rightarrow> bool ndarray" where
  "valid_values img nodata =
     (if isnan nodata then map_array isfinite (pixels img)
      else map_array (array_ne img nodata) (pixels img))"

definition expand_valid_data_mask ::
  "geobox \<Rightarrow> image \<Rightarrow> val option \<Rightarrow> bundler \<Rightarrow> error option \<times> bundler" where
  "expand_valid_data_mask grid img nodata s =
     (let nodata' = default_nodata img nodata;
          valid = valid_values img nodata'
      in case map_of (mask_by_grid s) grid of
           None \<Rightarrow> (None, s\<lparr>mask_by_grid := dict_set (mask_by_grid s) grid valid\<rparr>)
         | Some msk \<Rightarrow>
             (case inplace (\<or>) msk valid of
                Inl e \<Rightarrow> (Some e, s)
              | Inr mask' \<Rightarrow> (None, s\<lparr>mask_by_grid := dict_set (mask_by_grid s) grid mask'\<rparr>)))"

definition normalise_grid :: "geobox \<Rightarrow> crs \<Rightarrow> geobox" where
  "normalise_grid grid c =
     (case epsg c of None \<Rightarrow> grid | Some n \<Rightarrow> GeoBox (shape grid) (affine grid) n)"

definition record_image ::
  "string \<Rightarrow> geobox \<Rightarrow> string \<Rightarrow> image \<Rightarrow> string option \<Rightarrow> val option \<Rightarrow> bool \<Rightarrow> bundler
     \<Rightarrow> error option \<times> bundler" where
  "record_image name grid path img layer nodata expand s =
     (case find_duplicate name (measurements_per_grid s) of
        Some orig \<Rightarrow> (Some (DuplicateMeasurement name orig path), s)
      | None \<Rightarrow>
          (case crs grid of
             None \<Rightarrow> (Some AttributeError, s)
           | Some c \<Rightarrow>
               (let grid' = normalise_grid grid c;
                    s' = s\<lparr>measurements_per_grid :=
                            add_measurement grid' name (path, layer) (measurements_per_grid s)\<rparr>
                in if expand then expand_valid_data_mask grid' img nodata s' else (None, s'))))"

text \<open>
  A sequence of \<open>record_image\<close> calls, each given by its arguments. The bundler after the
  sequence is the one the calls leave one after the other; a call that raises leaves the
  bundler as it stood at the exception, and the caller may go on recording.
\<close>

record call =
  c_name :: string
  c_grid :: geobox
  c_path :: string
  c_img :: image
  c_layer :: "string option"
  c_nodata :: "val option"
  c_expand :: bool

definition do_call :: "bundler \<Rightarrow> call \<Rightarrow> bundler" where
  "do_call s c =
     snd (record_image (c_name c) (c_grid c) (c_path c) (c_img c) (c_layer c) (c_nodata c)
            (c_expand c) s)"

definition record_all :: "bundler \<Rightarrow> call list \<Rightarrow> bundler" where
  "record_all s cs = foldl do_call s cs"

text \<open>The number of true pixels of a grid's mask (none while the grid has no mask), and
  what it means that a grid's mask has only grown from one bundler to another.\<close>

definition mask_count :: "bundler \<Rightarrow> geobox \<Rightarrow> nat" where
  "mask_count s g = (case map_of (mask_by_grid s) g of None \<Rightarrow> 0 | Some m \<Rightarrow> count_true m)"

definition covers :: "bool ndarray \<Rightarrow> bool ndarray \<Rightarrow> bool" where
  "covers m' m =
     (nrows m' = nrows m \<and> ncols m' = ncols m \<and> length (cells m') = length (cells m) \<and>
      (\<forall>k<length (cells m). cells m ! k \<longrightarrow> cells m' ! k))"

definition mask_grown :: "bundler \<Rightarrow> bundler \<Rightarrow> geobox \<Rightarrow> bool" where
  "mask_grown s s' g =
     (case map_of (mask_by_grid s) g of
        None \<Rightarrow> True
      | Some m \<Rightarrow> (case map_of (mask_by_grid s') g of None \<Rightarrow> False | Some m' \<Rightarrow> covers m' m))"

subsection \<open>Naming the grids\<close>

text \<open>
  \<^verbatim>\<open>os.path.commonprefix\<close>: the longest string that every name starts with, and the
  empty string for no names. \<^verbatim>\<open>_common_suffix\<close> is the same on the reversed names.
\<close>

fun common_prefix2 :: "string \<Rightarrow> string \<Rightarrow> string" where
  "common_prefix2 (x # xs) (y # ys) = (if x = y then x # common_prefix2 xs ys else [])"
| "common_prefix2 xs ys = []"

fun commonprefix :: "string list \<Rightarrow> string" where
  "commonprefix [] = []"
| "commonprefix (n # ns) = foldl common_prefix2 n ns"

definition common_suffix :: "string list \<Rightarrow> string" where
  "common_suffix names = rev (commonprefix (map rev names))"

definition startswith :: "string \<Rightarrow> string \<Rightarrow> bool" where
  "startswith s p = (take (length p) s = p)"

definition endswith :: "string \<Rightarrow> string \<Rightarrow> bool" where
  "endswith s p = (take (length p) (rev s) = rev p)"

text \<open>\<^verbatim>\<open>s.strip(chars)\<close> and \<^verbatim>\<open>sep.join(names)\<close>.\<close>

definition strip :: "string \<Rightarrow> string \<Rightarrow> string" where
  "strip chars s =
     rev (dropWhile (\<lambda>c. c \<in> set chars) (rev (dropWhile (\<lambda>c. c \<in> set chars) s)))"

fun join :: "string \<Rightarrow> string list \<Rightarrow> string" where
  "join sep [] = []"
| "join sep [n] = n"
| "join sep (n # ns) = n @ sep @ join sep ns"

text \<open>
  \<^verbatim>\<open>sorted(xs, key=k, reverse=True)\<close> and \<^verbatim>\<open>xs.sort(key=k, reverse=True)\<close> with a length
  as the key: descending by key, and stable (equal keys keep their order, also when
  reversed). \<open>sort_key\<close> is a stable insertion sort, used here on the negated key.
\<close>

definition sorted_desc :: "('a \<Rightarrow> nat) \<Rightarrow> 'a list \<Rightarrow> 'a list" where
  "sorted_desc k xs = sort_key (\<lambda>x. - int (k x)) xs"

definition find_a_common_name :: "string list \<Rightarrow> string list \<Rightarrow> string option" where
  "find_a_common_name group_of_names all_possible_names =
     (let non_group_names = filter (\<lambda>n. n \<notin> set group_of_names) all_possible_names;
          pre = commonprefix group_of_names;
          options1 = (if \<not> list_ex (\<lambda>name. startswith name pre) non_group_names
                      then [pre] else []);
          suf = common_suffix group_of_names;
          options2 = options1 @ (if \<not> list_ex (\<lambda>name. endswith name suf) non_group_names
                                 then [suf] else [])
      in if options2 = [] then None
         else (case sorted_desc length (map (strip ''_:'') options2) of
                 [] \<Rightarrow> None
               | opt # others \<Rightarrow> (if opt = [] then None else Some opt)))"

type_synonym named_grids = "(string \<times> geobox \<times> measurements) list"

definition iter_names :: "bundler \<Rightarrow> string list" where
  "iter_names s = concat (map (\<lambda>(grid, ms). map fst ms) (measurements_per_grid s))"

definition has_key :: "('k \<times> 'v) list \<Rightarrow> 'k \<Rightarrow> bool" where
  "has_key d k = (k \<in> set (map fst d))"

text \<open>
  The first loop of \<^verbatim>\<open>_as_named_grids\<close>, over the grids after the default one:
  \<open>None\<close> is a \<^verbatim>\<open>break\<close> (no name found, or a name taken), \<open>Some\<close> is the loop running to
  its \<^verbatim>\<open>else\<close>.
\<close>

fun name_by_measurements ::
  "string list \<Rightarrow> (geobox \<times> measurements) list \<Rightarrow> named_grids \<Rightarrow> named_grids option" where
  "name_by_measurements all_names [] named = Some named"
| "name_by_measurements all_names ((grid, ms) # rest) named =
     (case (if length ms = 1 then Some (join ''_'' (map fst ms))
            else find_a_common_name (map fst ms) all_names) of
        None \<Rightarrow> None
      | Some grid_name \<Rightarrow>
          (if has_key named grid_name then None
           else name_by_measurements all_names rest (named @ [(grid_name, grid, ms)])))"

text \<open>
  The second loop names a grid by the absolute value of its horizontal resolution (the
  \<open>a\<close> coefficient of its transform): above one it is cut to an integer and written in
  decimal; otherwise Python formats the float, which is the parameter \<open>float_str\<close> here.
\<close>

definition resolution_name :: "(rat \<Rightarrow> string) \<Rightarrow> geobox \<Rightarrow> string" where
  "resolution_name float_str grid =
     (let res_x = \<bar>aff_a (affine grid)\<bar>
      in if res_x > 1 then dec (nat \<lfloor>res_x\<rfloor>) else float_str res_x)"

fun name_by_resolution ::
  "(rat \<Rightarrow> string) \<Rightarrow> (geobox \<times> measurements) list \<Rightarrow> named_grids \<Rightarrow> named_grids option" where
  "name_by_resolution float_str [] named = Some named"
| "name_by_resolution float_str ((grid, ms) # rest) named =
     (let grid_name = resolution_name float_str grid
      in if has_key named grid_name then None
         else name_by_resolution float_str rest (named @ [(grid_name, grid, ms)]))"

text \<open>\<^verbatim>\<open>string.ascii_letters\<close>, one name per letter.\<close>

definition ascii_letters :: string where
  "ascii_letters = ''abcdefghijklmnopqrstuvwxyzABCDEFGHIJKLMNOPQRSTUVWXYZ''"

definition grid_names :: "string list" where
  "grid_names = map (\<lambda>c. [c]) ascii_letters"

definition name_by_letters ::
  "geobox \<times> measurements \<Rightarrow> (geobox \<times> measurements) list \<Rightarrow> error + named_grids" where
  "name_by_letters default_grid grids =
     (if length grids > length grid_names then Inl (TooManyGrids (length grid_names))
      else Inr ((''default'', default_grid) #
                map (\<lambda>i. (grid_names ! i, grids ! i)) [0..<length grids]))"

definition grids_by_frequency :: "bundler \<Rightarrow> (geobox \<times> measurements) list" where
  "grids_by_frequency s = sorted_desc (\<lambda>k. length (snd k)) (measurements_per_grid s)"

definition as_named_grids :: "(rat \<Rightarrow> string) \<Rightarrow> bundler \<Rightarrow> error + named_grids" where
  "as_named_grids float_str s =
     (case grids_by_frequency s of
        [] \<Rightarrow> Inl IndexError
      | default_grid # grids \<Rightarrow>
          (if grids = [] then Inr [(''default'', default_grid)]
           else (case name_by_measurements (iter_names s) grids [(''default'', default_grid)] of
                   Some named \<Rightarrow> Inr named
                 | None \<Rightarrow>
                     (case name_by_resolution float_str grids [(''default'', default_grid)] of
                        Some named \<Rightarrow> Inr named
                      | None \<Rightarrow> name_by_letters default_grid grids))))"

subsection \<open>Geometry\<close>

text \<open>
  A shapely geometry is the set of points of the plane it covers. \<^verbatim>\<open>box\<close>,
  \<^verbatim>\<open>intersection\<close>, \<^verbatim>\<open>unary_union\<close> and \<^verbatim>\<open>affine_transform\<close> are then operations on
  point sets. The other library calls (vectorising a mask, validity and its repair, hull,
  buffer, simplification, hole filling, and the image hull of scikit-image, which may not
  be installed) are parameters, gathered in one record.
\<close>

type_synonym geom = "(real \<times> real) set"

record geolib =
  shapes :: "nat ndarray \<Rightarrow> (geom \<times> nat) list"
  is_valid :: "geom \<Rightarrow> bool"
  buffer0 :: "geom \<Rightarrow> geom"
  convex_hull :: "geom \<Rightarrow> geom"
  buffer1_square_bevel :: "geom \<Rightarrow> geom"
  simplify1 :: "geom \<Rightarrow> geom"
  binary_fill_holes :: "nat ndarray \<Rightarrow> nat ndarray"
  convex_hull_image :: "(bool ndarray \<Rightarrow> bool ndarray) option"

definition box :: "real \<times> real \<times> real \<times> real \<Rightarrow> geom" where
  "box b = (case b of (minx, miny, maxx, maxy) \<Rightarrow>
     {(x, y). min minx maxx \<le> x \<and> x \<le> max minx maxx \<and> min miny maxy \<le> y \<and> y \<le> max miny maxy})"

definition intersection :: "geom \<Rightarrow> geom \<Rightarrow> geom" where
  "intersection g h = g \<inter> h"

definition unary_union :: "geom list \<Rightarrow> geom" where
  "unary_union gs = \<Union> (set gs)"


text \<open>
  \<^verbatim>\<open>grid.boundingbox\<close> is odc-geo's: the bounding box of the grid in its own CRS, that is
  \<open>(left, bottom, right, top)\<close> of the four corners of the pixel rectangle
  \<open>[0, columns] \<times> [0, rows]\<close> after the grid's transform.
\<close>

definition apply_affine :: "affine \<Rightarrow> real \<times> real \<Rightarrow> real \<times> real" where
  "apply_affine t p =
     (of_rat (aff_a t) * fst p + of_rat (aff_b t) * snd p + of_rat (aff_xoff t),
      of_rat (aff_d t) * fst p + of_rat (aff_e t) * snd p + of_rat (aff_yoff t))"

definition boundingbox :: "geobox \<Rightarrow> real \<times> real \<times> real \<times> real" where
  "boundingbox grid =
     (let ny = real (fst (shape grid));
          nx = real (snd (shape grid));
          pts = map (apply_affine (affine grid)) [(0, 0), (nx, 0), (nx, ny), (0, ny)];
          xx = map fst pts;
          yy = map snd pts
      in (Min (set xx), Min (set yy), Max (set xx), Max (set yy)))"

definition affine_transform :: "geom \<Rightarrow> affine \<Rightarrow> geom" where
  "affine_transform g t = apply_affine t ` g"

definition astype_uint8 :: "bool ndarray \<Rightarrow> nat ndarray" where
  "astype_uint8 m = map_array (\<lambda>b. if b then 1 else 0) m"

definition valid_shape :: "geolib \<Rightarrow> geom \<Rightarrow> geom" where
  "valid_shape lib sh = (if is_valid lib sh then sh else buffer0 lib sh)"

definition grid_to_poly :: "geolib \<Rightarrow> geobox \<Rightarrow> nat ndarray \<Rightarrow> geom" where
  "grid_to_poly lib grid m =
     (let sh = unary_union (map (\<lambda>(g, v). valid_shape lib g)
                                (filter (\<lambda>(g, v). v = 1) (shapes lib m)));
          shape_y = nrows m;
          shape_x = ncols m;
          geom1 = convex_hull lib sh;
          geom2 = buffer1_square_bevel lib geom1;
          geom3 = simplify1 lib geom2;
          geom4 = intersection geom3 (box (0, 0, real shape_x, real shape_y))
      in affine_transform geom4 (affine grid))"

datatype ValidDataMethod = thorough | filled | convex_hull_method | bounds

definition grid_geom :: "geolib \<Rightarrow> ValidDataMethod \<Rightarrow> geobox \<Rightarrow> bool ndarray \<Rightarrow> error + geom" where
  "grid_geom lib valid_data_method grid m =
     (case valid_data_method of
        bounds \<Rightarrow> Inr (box (boundingbox grid))
      | filled \<Rightarrow> Inr (grid_to_poly lib grid (binary_fill_holes lib (astype_uint8 m)))
      | convex_hull_method \<Rightarrow>
          (case convex_hull_image lib of
             None \<Rightarrow> Inl ImportError
           | Some hull_image \<Rightarrow> Inr (grid_to_poly lib grid (astype_uint8 (hull_image m))))
      | thorough \<Rightarrow> Inr (grid_to_poly lib grid (astype_uint8 m)))"

text \<open>
  The \<^verbatim>\<open>while self.mask_by_grid\<close> loop. Its list argument is the dictionary newest entry
  first, which is the order \<^verbatim>\<open>popitem\<close> takes them in; it returns the entries still in the
  dictionary when the loop ends or an import fails.
\<close>

fun consume_loop ::
  "geolib \<Rightarrow> ValidDataMethod \<Rightarrow> (geobox \<times> bool ndarray) list \<Rightarrow> geom list
     \<Rightarrow> (error + geom list) \<times> (geobox \<times> bool ndarray) list" where
  "consume_loop lib valid_data_method [] geoms = (Inr geoms, [])"
| "consume_loop lib valid_data_method ((grid, m) # older) geoms =
     (case grid_geom lib valid_data_method grid m of
        Inl e \<Rightarrow> (Inl e, older)
      | Inr g \<Rightarrow> consume_loop lib valid_data_method older (geoms @ [g]))"

definition consume_and_get_valid_data ::
  "geolib \<Rightarrow> ValidDataMethod \<Rightarrow> bundler \<Rightarrow> (error + geom) \<times> bundler" where
  "consume_and_get_valid_data lib valid_data_method s =
     (case consume_loop lib valid_data_method (rev (mask_by_grid s)) [] of
        (Inl e, left) \<Rightarrow> (Inl e, s\<lparr>mask_by_grid := rev left\<rparr>)
      | (Inr geoms, left) \<Rightarrow> (Inr (unary_union geoms), s\<lparr>mask_by_grid := rev left\<rparr>))"

subsection \<open>The stretch range\<close>




text \<open>
  \<^verbatim>\<open>numpy.percentile(data, q, method="nearest")\<close> is numpy's, with its floating-point index
  arithmetic: it is the parameter \<open>percentile\<close> of the functions below, which gives the
  value numpy returns for the data and one \<open>q\<close>. numpy rejects a \<open>q\<close> outside \<open>[0, 100]\<close>.
\<close>








subsection \<open>The stretch range as the specification words it\<close>













subsection \<open>Example inputs\<close>

text \<open>
  Two grids of one dataset (30 m and 15 m pixels of the same UTM zone, given by a CRS text
  that resolves to EPSG:32655), a two-pixel integer image, and a library whose operations
  are the simplest ones there are. In the examples every resolution is above one, so the
  float formatter is never asked; \<open>no_float_str\<close> stands in for it.
\<close>

definition utm55 :: crs where
  "utm55 = \<lparr>crs_str = ''epsg:32655'', epsg = Some 32655\<rparr>"

definition grid_of :: "nat \<times> nat \<Rightarrow> rat \<Rightarrow> geobox" where
  "grid_of sh res =
     \<lparr>shape = sh,
      affine = \<lparr>aff_a = res, aff_b = 0, aff_xoff = 500000, aff_d = 0, aff_e = - res,
                aff_yoff = 6000000\<rparr>,
      crs = Some utm55\<rparr>"

definition grid_A :: geobox where
  "grid_A = grid_of (1, 2) 30"

definition grid_B :: geobox where
  "grid_B = grid_of (2, 4) 15"

definition grid_A_norm :: geobox where
  "grid_A_norm = GeoBox (1, 2) (affine grid_A) 32655"

definition grid_B_norm :: geobox where
  "grid_B_norm = GeoBox (2, 4) (affine grid_B) 32655"

text \<open>The conversion of a dtype that holds the values at hand exactly.\<close>

definition exact :: "val \<Rightarrow> val \<Rightarrow> val" where
  "exact n x = x"

definition int_image :: "nat \<times> nat \<Rightarrow> rat list \<Rightarrow> image" where
  "int_image sh xs =
     \<lparr>dtype = Integral, pixels = \<lparr>nrows = fst sh, ncols = snd sh, cells = map Fin xs\<rparr>,
      as_common = exact\<rparr>"

definition no_float_str :: "rat \<Rightarrow> string" where
  "no_float_str r = []"

definition one_band :: bundler where
  "one_band = snd (record_image ''nbar_blue'' grid_A ''blue.tif'' (int_image (1, 2) [0, 5])
                     None None True init)"

definition nbar_example :: bundler where
  "nbar_example =
     snd (record_image ''nbart_blue'' grid_B ''nbart_blue.tif'' (int_image (2, 4) [1, 1, 1, 1, 0, 0, 0, 0])
            None None True
       (snd (record_image ''nbar_red'' grid_A ''nbar_red.tif'' (int_image (1, 2) [7, 0])
               None None True
          (snd (record_image ''nbar_blue'' grid_A ''nbar_blue.tif'' (int_image (1, 2) [0, 0])
                  None None True init)))))"

definition blue_call :: call where
  "blue_call = \<lparr>c_name = ''nbar_blue'', c_grid = grid_A, c_path = ''blue.tif'',
                 c_img = int_image (1, 2) [0, 5], c_layer = None, c_nodata = None,
                 c_expand = True\<rparr>"

definition red_call :: call where
  "red_call = \<lparr>c_name = ''nbar_red'', c_grid = grid_A, c_path = ''red.tif'',
                c_img = int_image (1, 2) [7, 0], c_layer = None, c_nodata = None,
                c_expand = True\<rparr>"


definition simple_lib :: geolib where
  "simple_lib =
     \<lparr>shapes = (\<lambda>m. [(box (0, 0, real (ncols m), real (nrows m)), 1)]),
      is_valid = (\<lambda>g. True),
      buffer0 = (\<lambda>g. g),
      convex_hull = (\<lambda>g. g),
      buffer1_square_bevel = (\<lambda>g. UNIV),
      simplify1 = (\<lambda>g. g),
      binary_fill_holes = (\<lambda>m. m),
      convex_hull_image = None\<rparr>"

definition blue_mask :: "bool ndarray" where
  "blue_mask = \<lparr>nrows = 1, ncols = 2, cells = [False, True]\<rparr>"

text \<open>
  A bundler with \<open>n\<close> grids of one pixel each, side by side at 30 m resolution, two
  measurements on every grid: what \<open>record_image\<close> leaves after recording
  \<^verbatim>\<open>a0x\<close>, \<^verbatim>\<open>b0y\<close> on the first tile, \<^verbatim>\<open>a1x\<close>, \<^verbatim>\<open>b1y\<close> on the second, and so on. No
  two names of a tile share a prefix or a suffix, and all tiles have the same resolution.
\<close>

definition tile :: "nat \<Rightarrow> geobox" where
  "tile i =
     \<lparr>shape = (1, 1),
      affine = \<lparr>aff_a = 30, aff_b = 0, aff_xoff = 30 * of_nat i, aff_d = 0, aff_e = - 30,
                aff_yoff = 0\<rparr>,
      crs = Some (crs_of_epsg 32655)\<rparr>"

definition tile_entry :: "nat \<Rightarrow> geobox \<times> measurements" where
  "tile_entry i = (tile i, [(''a'' @ dec i @ ''x'', (''a.tif'', None)),
                            (''b'' @ dec i @ ''y'', (''b.tif'', None))])"

definition tiles :: "nat \<Rightarrow> bundler" where
  "tiles n =
     \<lparr>measurements_per_grid = map tile_entry [0..<n],
      mask_by_grid = map (\<lambda>i. (tile i, \<lparr>nrows = 1, ncols = 1, cells = [True]\<rparr>)) [0..<n]\<rparr>"

definition entry_A :: "geobox \<times> measurements" where
  "entry_A = (grid_A_norm, [(''nbar_blue'', (''nbar_blue.tif'', None)),
                            (''nbar_red'', (''nbar_red.tif'', None))])"

definition entry_B :: "geobox \<times> measurements" where
  "entry_B = (grid_B_norm, [(''nbart_blue'', (''nbart_blue.tif'', None))])"











section \<open>Properties\<close>

subsection \<open>Evaluating the examples\<close>

lemma dec_32655: "dec 32655 = ''32655''"
  by (simp add: dec.simps digit_def)

lemma normalise_grid_A: "normalise_grid grid_A utm55 = grid_A_norm"
  by (simp add: normalise_grid_def utm55_def grid_A_def grid_A_norm_def grid_of_def)

lemma normalise_grid_B: "normalise_grid grid_B utm55 = grid_B_norm"
  by (simp add: normalise_grid_def utm55_def grid_B_def grid_B_norm_def grid_of_def)

lemma grid_A_norm_neq_B: "grid_A_norm \<noteq> grid_B_norm" "grid_B_norm \<noteq> grid_A_norm"
  by (simp_all add: grid_A_norm_def grid_B_norm_def GeoBox_def)

lemma crs_grid_A: "crs grid_A = Some utm55" and crs_grid_B: "crs grid_B = Some utm55"
  by (simp_all add: grid_A_def grid_B_def grid_of_def)

lemma one_band_eq:
  "one_band = \<lparr>measurements_per_grid = [(grid_A_norm, [(''nbar_blue'', (''blue.tif'', None))])],
               mask_by_grid = [(grid_A_norm, \<lparr>nrows = 1, ncols = 2, cells = [False, True]\<rparr>)]\<rparr>"
  by (simp add: one_band_def record_image_def init_def crs_grid_A normalise_grid_A
      add_measurement_def expand_valid_data_mask_def default_nodata_def valid_values_def
      int_image_def isnan_def array_ne_def exact_def ne_def map_array_def)

subsection \<open>Duplicate names\<close>

lemma find_duplicate_Some:
  "find_duplicate name mpg = Some orig \<Longrightarrow>
     \<exists>g ms. (g, ms) \<in> set mpg \<and> map_of ms name = Some orig"
  by (induction name mpg rule: find_duplicate.induct) (auto split: option.splits)

lemma find_duplicate_None:
  "find_duplicate name mpg = None \<Longrightarrow> (g, ms) \<in> set mpg \<Longrightarrow> map_of ms name = None"
  by (induction name mpg rule: find_duplicate.induct) (auto split: option.splits)

lemma find_duplicate_present:
  assumes "(g, ms) \<in> set mpg" and "name \<in> fst ` set ms"
  shows "\<exists>orig. find_duplicate name mpg = Some orig"
proof (cases "find_duplicate name mpg")
  case None
  from find_duplicate_None [OF None assms(1)] have "map_of ms name = None" .
  with assms(2) show ?thesis by (simp add: map_of_eq_None_iff)
next
  case (Some orig)
  then show ?thesis by blast
qed

text \<open>
  C3. Whatever the registry holds, recording a name that some grid already has (the same
  grid or another) raises the duplicate error, and the error carries the name, the
  location stored for it and the new path.
\<close>

theorem record_image_duplicate:
  assumes "(g, ms) \<in> set (measurements_per_grid s)" and "name \<in> fst ` set ms"
  shows "\<exists>g' ms' orig. (g', ms') \<in> set (measurements_per_grid s) \<and> map_of ms' name = Some orig \<and>
           fst (record_image name grid path img layer nodata expand s)
             = Some (DuplicateMeasurement name orig path)"
proof -
  from find_duplicate_present [OF assms] obtain orig
    where f: "find_duplicate name (measurements_per_grid s) = Some orig" by blast
  from find_duplicate_Some [OF f] obtain g' ms'
    where "(g', ms') \<in> set (measurements_per_grid s)" "map_of ms' name = Some orig" by blast
  moreover have "fst (record_image name grid path img layer nodata expand s)
      = Some (DuplicateMeasurement name orig path)"
    by (simp add: record_image_def f)
  ultimately show ?thesis by blast
qed

theorem record_image_duplicate_witness:
  "(grid_A_norm, [(''nbar_blue'', (''blue.tif'', None))]) \<in> set (measurements_per_grid one_band) \<and>
   ''nbar_blue'' \<in> fst ` set [(''nbar_blue'', (''blue.tif'', None :: string option))] \<and>
   fst (record_image ''nbar_blue'' grid_B ''again.tif'' (int_image (2, 4) [1, 1, 1, 1, 0, 0, 0, 0])
          None None True one_band)
     = Some (DuplicateMeasurement ''nbar_blue'' (''blue.tif'', None) ''again.tif'')"
proof -
  have a: "(grid_A_norm, [(''nbar_blue'', (''blue.tif'', None))]) \<in> set (measurements_per_grid one_band)"
    by (simp add: one_band_eq)
  have b: "''nbar_blue'' \<in> fst ` set [(''nbar_blue'', (''blue.tif'', None :: string option))]"
    by simp
  from record_image_duplicate [OF a b, of grid_B "''again.tif''"
      "int_image (2, 4) [1, 1, 1, 1, 0, 0, 0, 0]" None None True]
  obtain g' ms' orig where m: "(g', ms') \<in> set (measurements_per_grid one_band)"
    and o: "map_of ms' ''nbar_blue'' = Some orig"
    and r: "fst (record_image ''nbar_blue'' grid_B ''again.tif''
                   (int_image (2, 4) [1, 1, 1, 1, 0, 0, 0, 0]) None None True one_band)
              = Some (DuplicateMeasurement ''nbar_blue'' orig ''again.tif'')"
    by blast
  from m o have "orig = (''blue.tif'', None)" by (auto simp: one_band_eq)
  with a b r show ?thesis by simp
qed

text \<open>
  C10. When \<open>record_image\<close> raises the duplicate error, the bundler it leaves is the one it
  was given: the measurements of every grid and every mask are as before.
\<close>

theorem record_image_duplicate_unchanged:
  assumes "fst (record_image name grid path img layer nodata expand s)
             = Some (DuplicateMeasurement n orig p)"
  shows "snd (record_image name grid path img layer nodata expand s) = s"
proof (cases "find_duplicate name (measurements_per_grid s)")
  case (Some loc)
  then show ?thesis by (simp add: record_image_def)
next
  case None
  have "fst (expand_valid_data_mask g' img nodata s') \<noteq> Some (DuplicateMeasurement n orig p)"
    for g' s'
    by (auto simp: expand_valid_data_mask_def Let_def inplace_def
        split: option.splits sum.splits if_splits)
  with assms None show ?thesis
    by (auto simp: record_image_def Let_def split: option.splits if_splits)
qed

theorem record_image_duplicate_unchanged_witness:
  "fst (record_image ''nbar_blue'' grid_B ''again.tif'' (int_image (2, 4) [1, 1, 1, 1, 0, 0, 0, 0])
          None None True one_band)
     = Some (DuplicateMeasurement ''nbar_blue'' (''blue.tif'', None) ''again.tif'') \<and>
   snd (record_image ''nbar_blue'' grid_B ''again.tif'' (int_image (2, 4) [1, 1, 1, 1, 0, 0, 0, 0])
          None None True one_band) = one_band"
proof -
  have a: "fst (record_image ''nbar_blue'' grid_B ''again.tif''
                  (int_image (2, 4) [1, 1, 1, 1, 0, 0, 0, 0]) None None True one_band)
             = Some (DuplicateMeasurement ''nbar_blue'' (''blue.tif'', None) ''again.tif'')"
    by (simp add: record_image_def one_band_eq)
  from a record_image_duplicate_unchanged [OF a] show ?thesis by simp
qed

subsection \<open>Growing the masks\<close>

lemma map_of_dict_set: "map_of (dict_set d k v) k' = (if k' = k then Some v else map_of d k')"
  by (induction d k v rule: dict_set.induct) auto

lemma count_filter_mono:
  "length xs = length ys \<Longrightarrow> (\<forall>k<length xs. xs ! k \<longrightarrow> ys ! k) \<Longrightarrow>
     length (filter (\<lambda>b. b) xs) \<le> length (filter (\<lambda>b. b) ys)"
proof (induction xs ys rule: list_induct2)
  case Nil
  then show ?case by simp
next
  case (Cons x xs y ys)
  from Cons.prems have hd: "x \<longrightarrow> y" by (metis length_Cons nth_Cons_0 zero_less_Suc)
  from Cons.prems have "\<forall>k<length xs. xs ! k \<longrightarrow> ys ! k" by fastforce
  with Cons.IH have "length (filter (\<lambda>b. b) xs) \<le> length (filter (\<lambda>b. b) ys)" by blast
  with hd show ?case by auto
qed

lemma covers_refl: "covers m m"
  by (simp add: covers_def)

lemma covers_trans: "covers m'' m' \<Longrightarrow> covers m' m \<Longrightarrow> covers m'' m"
  by (auto simp: covers_def)

lemma covers_count: "covers m' m \<Longrightarrow> count_true m \<le> count_true m'"
  unfolding covers_def count_true_def by (metis count_filter_mono)

lemma inplace_or_covers: "inplace (\<or>) m v = Inr m' \<Longrightarrow> covers m' m"
  by (auto simp: inplace_def covers_def split: if_splits)

lemma mask_grown_refl: "mask_grown s s g"
  by (simp add: mask_grown_def covers_refl split: option.splits)

lemma mask_grown_same: "mask_by_grid s' = mask_by_grid s \<Longrightarrow> mask_grown s s' g"
  by (simp add: mask_grown_def covers_refl split: option.splits)

lemma mask_grown_trans: "mask_grown s s' g \<Longrightarrow> mask_grown s' s'' g \<Longrightarrow> mask_grown s s'' g"
  by (auto simp: mask_grown_def split: option.splits intro: covers_trans)

lemma mask_grown_count: "mask_grown s s' g \<Longrightarrow> mask_count s g \<le> mask_count s' g"
  by (auto simp: mask_grown_def mask_count_def split: option.splits intro: covers_count)

lemma expand_mask_grown:
  "mask_by_grid s0 = mask_by_grid s \<Longrightarrow>
     mask_grown s0 (snd (expand_valid_data_mask grid img nodata s)) g"
  by (auto simp: expand_valid_data_mask_def Let_def mask_grown_def map_of_dict_set covers_refl
      split: option.splits sum.splits dest: inplace_or_covers)

lemma record_image_grown:
  "mask_grown s (snd (record_image name grid path img layer nodata expand s)) g"
  by (auto simp: record_image_def Let_def mask_grown_refl expand_mask_grown mask_grown_same
      split: option.splits)

lemma record_all_grown: "mask_grown s (record_all s cs) g"
proof (induction cs arbitrary: s)
  case Nil
  show ?case by (simp add: record_all_def mask_grown_refl)
next
  case (Cons c cs)
  have "mask_grown s (do_call s c) g" by (simp add: do_call_def record_image_grown)
  moreover have "mask_grown (do_call s c) (record_all (do_call s c) cs) g" by (rule Cons.IH)
  ultimately show ?case by (simp add: record_all_def mask_grown_trans)
qed

lemma record_all_append: "record_all s (cs @ ds) = record_all (record_all s cs) ds"
  by (simp add: record_all_def)

text \<open>What one recording call with \<open>expand_valid_data\<close> does to the mask of its grid.\<close>

lemma record_image_mask:
  assumes "find_duplicate name (measurements_per_grid s) = None" and "crs grid = Some c"
  shows "map_of (mask_by_grid (snd (record_image name grid path img layer nodata True s)))
           (normalise_grid grid c)
         = (let v = valid_values img (default_nodata img nodata)
            in case map_of (mask_by_grid s) (normalise_grid grid c) of
                 None \<Rightarrow> Some v
               | Some m \<Rightarrow>
                   (if broadcastable v m
                    then Some \<lparr>nrows = nrows m, ncols = ncols m,
                               cells = map (\<lambda>k. cells m ! k \<or>
                                                 bcast_cell v (k div ncols m) (k mod ncols m))
                                           [0..<length (cells m)]\<rparr>
                    else Some m))"
  using assms
  by (auto simp: record_image_def expand_valid_data_mask_def Let_def map_of_dict_set inplace_def
      split: option.splits)

lemma blue_then_red:
  "mask_by_grid (record_all init [blue_call, red_call])
     = [(grid_A_norm, \<lparr>nrows = 1, ncols = 2, cells = [True, True]\<rparr>)]"
  by (simp add: record_all_def do_call_def blue_call_def red_call_def init_def record_image_def
      crs_grid_A normalise_grid_A add_measurement_def expand_valid_data_mask_def
      default_nodata_def valid_values_def int_image_def isnan_def array_ne_def exact_def ne_def map_array_def
      inplace_def broadcastable_def bcast_cell_def Let_def)

lemma blue_alone: "record_all init [blue_call] = one_band"
  by (simp add: record_all_def do_call_def blue_call_def one_band_def)

text \<open>
  C6. Along any sequence of \<open>record_image\<close> calls the mask of a grid only grows: after
  more calls the grid's mask has the same cells, every pixel that was true is still true,
  and so the number of true pixels is not smaller. A call with \<open>expand_valid_data\<close> that is
  accepted stores the validity mask for a grid without one, and otherwise ORs it, cell by
  cell, into the mask the grid has.
\<close>

theorem mask_only_grows:
  "mask_count (record_all s cs) g \<le> mask_count (record_all s (cs @ ds)) g \<and>
   mask_grown (record_all s cs) (record_all s (cs @ ds)) g \<and>
   (find_duplicate name (measurements_per_grid s) = None \<and> crs grid = Some c \<longrightarrow>
      map_of (mask_by_grid (snd (record_image name grid path img layer nodata True s)))
           (normalise_grid grid c)
         = (let v = valid_values img (default_nodata img nodata)
            in case map_of (mask_by_grid s) (normalise_grid grid c) of
                 None \<Rightarrow> Some v
               | Some m \<Rightarrow>
                   (if broadcastable v m
                    then Some \<lparr>nrows = nrows m, ncols = ncols m,
                               cells = map (\<lambda>k. cells m ! k \<or>
                                                 bcast_cell v (k div ncols m) (k mod ncols m))
                                           [0..<length (cells m)]\<rparr>
                    else Some m)))"
proof -
  have g: "mask_grown (record_all s cs) (record_all s (cs @ ds)) g"
    by (simp add: record_all_append record_all_grown)
  from mask_grown_count [OF g] g record_image_mask show ?thesis by blast
qed

theorem mask_only_grows_witness:
  "mask_count (record_all init [blue_call]) grid_A_norm = 1 \<and>
   mask_count (record_all init ([blue_call] @ [red_call])) grid_A_norm = 2 \<and>
   mask_count (record_all init [blue_call]) grid_A_norm
     \<le> mask_count (record_all init ([blue_call] @ [red_call])) grid_A_norm \<and>
   mask_grown (record_all init [blue_call]) (record_all init ([blue_call] @ [red_call])) grid_A_norm \<and>
   find_duplicate ''nbar_red'' (measurements_per_grid one_band) = None \<and>
   crs grid_A = Some utm55 \<and>
   map_of (mask_by_grid (snd (record_image ''nbar_red'' grid_A ''red.tif''
                                 (int_image (1, 2) [7, 0]) None None True one_band)))
       grid_A_norm
     = Some \<lparr>nrows = 1, ncols = 2, cells = [True, True]\<rparr>"
proof -
  have a: "mask_count (record_all init [blue_call]) grid_A_norm = 1"
    by (simp add: blue_alone one_band_eq mask_count_def count_true_def)
  have b: "mask_count (record_all init ([blue_call] @ [red_call])) grid_A_norm = 2"
    by (simp add: blue_then_red mask_count_def count_true_def)
  have d: "find_duplicate ''nbar_red'' (measurements_per_grid one_band) = None"
    by (simp add: one_band_eq)
  note t = mask_only_grows [where s = one_band and cs = "[]" and ds = "[]" and g = grid_A_norm
      and name = "''nbar_red''" and grid = grid_A and c = utm55 and path = "''red.tif''"
      and img = "int_image (1, 2) [7, 0]" and layer = None and nodata = None]
  note u = mask_only_grows [where s = init and cs = "[blue_call]" and ds = "[red_call]"
      and g = grid_A_norm and name = "''nbar_red''" and grid = grid_A and c = utm55
      and path = "''red.tif''" and img = "int_image (1, 2) [7, 0]" and layer = None
      and nodata = None]
  from t d crs_grid_A
  have "map_of (mask_by_grid (snd (record_image ''nbar_red'' grid_A ''red.tif''
                                 (int_image (1, 2) [7, 0]) None None True one_band)))
       grid_A_norm
     = Some \<lparr>nrows = 1, ncols = 2, cells = [True, True]\<rparr>"
    by (simp add: normalise_grid_A one_band_eq default_nodata_def valid_values_def
        int_image_def isnan_def array_ne_def exact_def ne_def map_array_def broadcastable_def bcast_cell_def)
  with u a b d crs_grid_A show ?thesis by simp
qed



subsection \<open>Consuming the masks\<close>


lemma consume_loop_ok:
  "valid_data_method = convex_hull_method \<longrightarrow> convex_hull_image lib \<noteq> None \<Longrightarrow>
     \<exists>gs. consume_loop lib valid_data_method ms geoms = (Inr gs, [])"
proof (induction ms arbitrary: geoms)
  case Nil
  then show ?case by simp
next
  case (Cons a ms)
  obtain grid m where a: "a = (grid, m)" by (cases a)
  from Cons.prems obtain g where "grid_geom lib valid_data_method grid m = Inr g"
    by (cases valid_data_method) (auto simp: grid_geom_def)
  with Cons.IH [OF Cons.prems] a show ?case by simp
qed

lemma consume_loop_returns:
  "consume_loop lib valid_data_method ms geoms = (Inr gs, left) \<Longrightarrow> left = []"
  by (induction ms arbitrary: geoms) (auto split: sum.splits)

lemma consume_measurements:
  "measurements_per_grid (snd (consume_and_get_valid_data lib vm s)) = measurements_per_grid s"
  by (simp add: consume_and_get_valid_data_def split: prod.splits sum.splits)

lemma as_named_grids_cong:
  assumes "measurements_per_grid s' = measurements_per_grid s"
  shows "as_named_grids fs s' = as_named_grids fs s"
proof -
  from assms have a: "iter_names s' = iter_names s"
    and b: "grids_by_frequency s' = grids_by_frequency s"
    by (simp_all add: iter_names_def grids_by_frequency_def)
  show ?thesis unfolding as_named_grids_def a b ..
qed

lemma consume_empty:
  "mask_by_grid s = [] \<Longrightarrow> consume_and_get_valid_data lib vm s = (Inr {}, s)"
  by (simp add: consume_and_get_valid_data_def unary_union_def)

lemma consume_returns_empty:
  assumes "fst (consume_and_get_valid_data lib vm s) = Inr geom"
  shows "mask_by_grid (snd (consume_and_get_valid_data lib vm s)) = []"
proof -
  obtain r left where c: "consume_loop lib vm (rev (mask_by_grid s)) [] = (r, left)"
    by (cases "consume_loop lib vm (rev (mask_by_grid s)) []")
  with assms obtain gs where "r = Inr gs"
    by (cases r) (auto simp: consume_and_get_valid_data_def)
  with c consume_loop_returns have "left = []" by blast
  with c \<open>r = Inr gs\<close> show ?thesis by (simp add: consume_and_get_valid_data_def)
qed

lemma mask_by_grid_one_band: "mask_by_grid one_band = [(grid_A_norm, blue_mask)]"
  by (simp add: one_band_eq blue_mask_def)

lemma consume_one_band_thorough:
  "consume_and_get_valid_data simple_lib thorough one_band
     = (Inr (grid_to_poly simple_lib grid_A_norm (astype_uint8 blue_mask)),
        one_band\<lparr>mask_by_grid := []\<rparr>)"
  by (simp add: consume_and_get_valid_data_def mask_by_grid_one_band grid_geom_def
      unary_union_def)

text \<open>
  C5. \<open>consume_and_get_valid_data\<close> never touches the measurements of the grids, so the
  names assigned afterwards are the names assigned before. When it returns, no mask is left
  in the bundler, and a second call finds nothing and returns the empty geometry. It does
  return, with every mask gone, unless the method is the image hull and scikit-image is
  missing.
\<close>

theorem consume_drains_masks:
  "measurements_per_grid (snd (consume_and_get_valid_data lib vm s)) = measurements_per_grid s \<and>
   as_named_grids fs (snd (consume_and_get_valid_data lib vm s)) = as_named_grids fs s \<and>
   (fst (consume_and_get_valid_data lib vm s) = Inr geom \<longrightarrow>
      mask_by_grid (snd (consume_and_get_valid_data lib vm s)) = [] \<and>
      consume_and_get_valid_data lib vm (snd (consume_and_get_valid_data lib vm s))
        = (Inr {}, snd (consume_and_get_valid_data lib vm s))) \<and>
   ((vm = convex_hull_method \<longrightarrow> convex_hull_image lib \<noteq> None) \<longrightarrow>
      (\<exists>geom'. consume_and_get_valid_data lib vm s = (Inr geom', s\<lparr>mask_by_grid := []\<rparr>)))"
proof -
  have "\<exists>geom'. consume_and_get_valid_data lib vm s = (Inr geom', s\<lparr>mask_by_grid := []\<rparr>)"
    if "vm = convex_hull_method \<longrightarrow> convex_hull_image lib \<noteq> None"
  proof -
    from consume_loop_ok [OF that] obtain gs
      where "consume_loop lib vm (rev (mask_by_grid s)) [] = (Inr gs, [])" by blast
    then show ?thesis by (simp add: consume_and_get_valid_data_def)
  qed
  then show ?thesis
    using consume_measurements as_named_grids_cong consume_returns_empty consume_empty
    by (metis (no_types, lifting))
qed

theorem consume_drains_masks_witness:
  "fst (consume_and_get_valid_data simple_lib thorough one_band)
     = Inr (grid_to_poly simple_lib grid_A_norm (astype_uint8 blue_mask)) \<and>
   thorough \<noteq> convex_hull_method \<and>
   mask_by_grid one_band = [(grid_A_norm, blue_mask)] \<and>
   mask_by_grid (snd (consume_and_get_valid_data simple_lib thorough one_band)) = [] \<and>
   measurements_per_grid (snd (consume_and_get_valid_data simple_lib thorough one_band))
     = [(grid_A_norm, [(''nbar_blue'', (''blue.tif'', None))])] \<and>
   consume_and_get_valid_data simple_lib thorough
       (snd (consume_and_get_valid_data simple_lib thorough one_band))
     = (Inr {}, snd (consume_and_get_valid_data simple_lib thorough one_band))"
proof -
  have a: "fst (consume_and_get_valid_data simple_lib thorough one_band)
     = Inr (grid_to_poly simple_lib grid_A_norm (astype_uint8 blue_mask))"
    by (simp add: consume_one_band_thorough)
  have m: "measurements_per_grid one_band = [(grid_A_norm, [(''nbar_blue'', (''blue.tif'', None))])]"
    by (simp add: one_band_eq)
  from consume_drains_masks [of simple_lib thorough one_band no_float_str
      "grid_to_poly simple_lib grid_A_norm (astype_uint8 blue_mask)"] a m mask_by_grid_one_band
  show ?thesis by simp
qed

text \<open>
  C8. The polygon \<open>_grid_to_poly\<close> makes for a grid from a mask of the grid's shape lies
  within the grid's pixel rectangle mapped by the grid's transform, whatever the
  vectorisation, hull, buffer and simplification return: the last two steps cut the shape
  to the pixel rectangle and map it with the transform.
\<close>

theorem grid_to_poly_within_bounds:
  assumes "(nrows m, ncols m) = shape grid"
  shows "grid_to_poly lib grid m
           \<subseteq> affine_transform (box (0, 0, real (snd (shape grid)), real (fst (shape grid))))
                (affine grid)"
proof -
  from assms have "nrows m = fst (shape grid)" "ncols m = snd (shape grid)"
    by (metis fst_conv, metis snd_conv)
  then show ?thesis
    by (auto simp: grid_to_poly_def Let_def intersection_def affine_transform_def)
qed

theorem grid_to_poly_within_bounds_witness:
  "(nrows (astype_uint8 blue_mask), ncols (astype_uint8 blue_mask)) = shape grid_A_norm \<and>
   grid_to_poly simple_lib grid_A_norm (astype_uint8 blue_mask)
     \<subseteq> affine_transform (box (0, 0, 2, 1)) (affine grid_A_norm)"
proof -
  have a: "(nrows (astype_uint8 blue_mask), ncols (astype_uint8 blue_mask)) = shape grid_A_norm"
    by (simp add: astype_uint8_def map_array_def blue_mask_def grid_A_norm_def GeoBox_def)
  have "shape grid_A_norm = (1, 2)" by (simp add: grid_A_norm_def GeoBox_def)
  with grid_to_poly_within_bounds [OF a, of simple_lib] a show ?thesis by simp
qed











subsection \<open>Naming the grids\<close>

lemma filter_hd_find: "filter Q xs = d # r \<Longrightarrow> find Q xs = Some d"
  by (induction xs) (auto split: if_splits)

lemma find_cong_set: "(\<And>x. x \<in> set xs \<Longrightarrow> P x = Q x) \<Longrightarrow> find P xs = find Q xs"
  by (induction xs) auto

lemma default_is_first_largest:
  assumes "grids_by_frequency s = d # grids"
  shows "find (\<lambda>e. \<forall>e'\<in>set (measurements_per_grid s). length (snd e') \<le> length (snd e))
           (measurements_per_grid s) = Some d"
proof -
  define k :: "geobox \<times> measurements \<Rightarrow> int" where "k = (\<lambda>x. - int (length (snd x)))"
  define mpg where "mpg = measurements_per_grid s"
  have srt: "sort_key k mpg = d # grids"
    using assms by (simp add: grids_by_frequency_def sorted_desc_def k_def mpg_def)
  have "sorted (map k (sort_key k mpg))" by (rule sorted_sort_key)
  with srt have le: "\<forall>e\<in>set grids. k d \<le> k e" by simp
  have "set (sort_key k mpg) = set mpg" by simp
  with srt have mem: "set mpg = insert d (set grids)" by simp
  with le have largest: "\<forall>e\<in>set mpg. length (snd e) \<le> length (snd d)"
    by (auto simp: k_def)
  have "filter (\<lambda>y. k y = k d) (sort_key k mpg) = filter (\<lambda>y. k y = k d) mpg"
    by (rule sort_key_stable)
  with srt have "filter (\<lambda>y. k y = k d) mpg = d # filter (\<lambda>y. k y = k d) grids" by simp
  then have f: "find (\<lambda>y. k y = k d) mpg = Some d" by (rule filter_hd_find)
  have "(\<forall>e'\<in>set mpg. length (snd e') \<le> length (snd e)) = (k e = k d)" if "e \<in> set mpg" for e
  proof
    assume a: "\<forall>e'\<in>set mpg. length (snd e') \<le> length (snd e)"
    from mem have "d \<in> set mpg" by simp
    with a have "length (snd d) \<le> length (snd e)" by blast
    moreover from largest that have "length (snd e) \<le> length (snd d)" by blast
    ultimately show "k e = k d" by (simp add: k_def)
  next
    assume "k e = k d"
    then have "length (snd e) = length (snd d)" by (simp add: k_def)
    with largest show "\<forall>e'\<in>set mpg. length (snd e') \<le> length (snd e)" by simp
  qed
  then have "find (\<lambda>e. \<forall>e'\<in>set mpg. length (snd e') \<le> length (snd e)) mpg
              = find (\<lambda>y. k y = k d) mpg"
    by (rule find_cong_set)
  with f show ?thesis by (simp add: mpg_def)
qed

lemma name_by_measurements_result:
  "name_by_measurements all grids named = Some res \<Longrightarrow>
     \<exists>new. res = named @ new \<and> map snd new = grids \<and>
           (\<forall>(n, g, ms)\<in>set new. length ms = 1 \<longrightarrow> [n] = map fst ms) \<and>
           (distinct (map fst named) \<longrightarrow> distinct (map fst res))"
proof (induction all grids named rule: name_by_measurements.induct)
  case (1 all_names named)
  then show ?case by simp
next
  case (2 all_names grid ms rest named)
  from "2.prems" obtain grid_name where
    gn: "(if length ms = 1 then Some (join ''_'' (map fst ms))
          else find_a_common_name (map fst ms) all_names) = Some grid_name"
    and nk: "\<not> has_key named grid_name"
    and rec: "name_by_measurements all_names rest (named @ [(grid_name, grid, ms)]) = Some res"
    by (auto split: option.splits if_splits)
  from "2.IH" [OF gn nk rec] obtain new where new: "res = (named @ [(grid_name, grid, ms)]) @ new"
    "map snd new = rest" "\<forall>(n, g, ms)\<in>set new. length ms = 1 \<longrightarrow> [n] = map fst ms"
    "distinct (map fst (named @ [(grid_name, grid, ms)])) \<longrightarrow> distinct (map fst res)"
    by blast
  have single: "length ms = 1 \<longrightarrow> [grid_name] = map fst ms"
  proof
    assume l: "length ms = 1"
    then obtain m where "ms = [m]" by (cases ms) auto
    with gn show "[grid_name] = map fst ms" by simp
  qed
  let ?new = "(grid_name, grid, ms) # new"
  have a: "res = named @ ?new" using new(1) by simp
  have b: "map snd ?new = (grid, ms) # rest" using new(2) by simp
  have c: "\<forall>(n, g, ms)\<in>set ?new. length ms = 1 \<longrightarrow> [n] = map fst ms"
    using new(3) single by auto
  have d: "distinct (map fst named) \<longrightarrow> distinct (map fst res)"
    using new(4) nk by (auto simp: has_key_def)
  from a b c d show ?case by (intro exI [of _ ?new] conjI)
qed

lemma name_by_resolution_result:
  "name_by_resolution fs grids named = Some res \<Longrightarrow> \<exists>new. res = named @ new"
proof (induction fs grids named rule: name_by_resolution.induct)
  case (1 float_str named)
  then show ?case by simp
next
  case (2 float_str grid ms rest named)
  from "2.prems" have nk: "\<not> has_key named (resolution_name float_str grid)"
    and rec: "name_by_resolution float_str rest
                (named @ [(resolution_name float_str grid, grid, ms)]) = Some res"
    by (auto simp: Let_def split: if_splits)
  from "2.IH" [OF refl nk rec] show ?case by auto
qed

lemma as_named_grids_default:
  assumes "as_named_grids fs s = Inr named"
  shows "\<exists>d grids new. grids_by_frequency s = d # grids \<and> named = (''default'', d) # new"
proof (cases "grids_by_frequency s")
  case Nil
  with assms show ?thesis by (simp add: as_named_grids_def)
next
  case (Cons d grids)
  show ?thesis
  proof (cases "grids = []")
    case True
    with assms Cons show ?thesis by (auto simp: as_named_grids_def)
  next
    case False
    show ?thesis
    proof (cases "name_by_measurements (iter_names s) grids [(''default'', d)]")
      case (Some res)
      with assms Cons False have "named = res" by (simp add: as_named_grids_def)
      with name_by_measurements_result [OF Some] Cons show ?thesis by auto
    next
      case None
      show ?thesis
      proof (cases "name_by_resolution fs grids [(''default'', d)]")
        case (Some res)
        with assms Cons False None have "named = res" by (simp add: as_named_grids_def)
        with name_by_resolution_result [OF Some] Cons show ?thesis by auto
      next
        case None2: None
        with assms Cons False None show ?thesis
          by (auto simp: as_named_grids_def name_by_letters_def split: if_splits)
      qed
    qed
  qed
qed

lemma single_named:
  assumes "name_by_measurements all grids [(''default'', d)] = Some named1"
    and "(g, [(n, loc)]) \<in> set grids"
  shows "map_of named1 n = Some (g, [(n, loc)])"
proof -
  from name_by_measurements_result [OF assms(1)] obtain new
    where new: "named1 = [(''default'', d)] @ new" "map snd new = grids"
      "\<forall>(n, g, ms)\<in>set new. length ms = 1 \<longrightarrow> [n] = map fst ms"
      "distinct (map fst named1)"
    by auto
  from assms(2) new(2) obtain n' where m: "(n', g, [(n, loc)]) \<in> set new"
    by (metis (no_types, opaque_lifting) imageE list.set_map prod.collapse snd_conv)
  with new(3) have "n' = n" by auto
  with m new(1) have "(n, g, [(n, loc)]) \<in> set named1" by simp
  with new(4) show ?thesis by (simp add: map_of_is_SomeI)
qed

lemma nbar_example_eq:
  "nbar_example =
     \<lparr>measurements_per_grid =
        [(grid_A_norm, [(''nbar_blue'', (''nbar_blue.tif'', None)),
                        (''nbar_red'', (''nbar_red.tif'', None))]),
         (grid_B_norm, [(''nbart_blue'', (''nbart_blue.tif'', None))])],
      mask_by_grid =
        [(grid_A_norm, \<lparr>nrows = 1, ncols = 2, cells = [True, False]\<rparr>),
         (grid_B_norm, \<lparr>nrows = 2, ncols = 4,
                        cells = [True, True, True, True, False, False, False, False]\<rparr>)]\<rparr>"
  by (simp add: nbar_example_def record_image_def init_def crs_grid_A crs_grid_B
      normalise_grid_A normalise_grid_B grid_A_norm_neq_B
      add_measurement_def expand_valid_data_mask_def default_nodata_def valid_values_def
      int_image_def isnan_def array_ne_def exact_def ne_def map_array_def inplace_def broadcastable_def
      bcast_cell_def Let_def)

lemma nbar_example_frequency:
  "grids_by_frequency nbar_example =
     [(grid_A_norm, [(''nbar_blue'', (''nbar_blue.tif'', None)),
                        (''nbar_red'', (''nbar_red.tif'', None))]),
         (grid_B_norm, [(''nbart_blue'', (''nbart_blue.tif'', None))])]"
  by (simp add: nbar_example_eq grids_by_frequency_def sorted_desc_def)

lemma nbar_example_stage1:
  "name_by_measurements (iter_names nbar_example)
      [(grid_B_norm, [(''nbart_blue'', (''nbart_blue.tif'', None))])]
      [(''default'', grid_A_norm, [(''nbar_blue'', (''nbar_blue.tif'', None)),
                        (''nbar_red'', (''nbar_red.tif'', None))])]
    = Some [(''default'', grid_A_norm, [(''nbar_blue'', (''nbar_blue.tif'', None)),
                        (''nbar_red'', (''nbar_red.tif'', None))]),
            (''nbart_blue'', grid_B_norm, [(''nbart_blue'', (''nbart_blue.tif'', None))])]"
  by (simp add: has_key_def)

lemma nbar_example_named:
  "as_named_grids fs nbar_example
     = Inr [(''default'', grid_A_norm, [(''nbar_blue'', (''nbar_blue.tif'', None)),
                        (''nbar_red'', (''nbar_red.tif'', None))]),
            (''nbart_blue'', grid_B_norm, [(''nbart_blue'', (''nbart_blue.tif'', None))])]"
  by (simp add: as_named_grids_def nbar_example_frequency nbar_example_stage1 del: name_by_measurements.simps)

lemma sort_key_const: "(\<forall>x\<in>set xs. k x = c) \<Longrightarrow> sort_key k xs = xs"
proof (induction xs)
  case Nil
  then show ?case by simp
next
  case (Cons a xs)
  then have "sort_key k xs = xs" by simp
  moreover have "insort_key k a xs = a # xs" using Cons.prems by (cases xs) auto
  ultimately show ?case by simp
qed

lemma tiles_by_frequency: "grids_by_frequency (tiles n) = map tile_entry [0..<n]"
proof -
  have "\<forall>x\<in>set (map tile_entry [0..<n]). - int (length (snd x)) = - 2"
    by (simp add: tile_entry_def)
  from sort_key_const [OF this] show ?thesis
    by (simp add: grids_by_frequency_def sorted_desc_def tiles_def)
qed

lemma upt_from_0: "3 \<le> n \<Longrightarrow> [0..<n] = 0 # [Suc 0..<n]"
  and upt_from_1: "3 \<le> n \<Longrightarrow> [Suc 0..<n] = Suc 0 # Suc (Suc 0) # [Suc (Suc (Suc 0))..<n]"
  by (simp_all add: upt_conv_Cons)

lemma find_a_common_name_none:
  assumes "commonprefix grp = []" and "common_suffix grp = []"
    and "n \<in> set all" and "n \<notin> set grp"
  shows "find_a_common_name grp all = None"
proof -
  have "list_ex (\<lambda>name. startswith name []) (filter (\<lambda>n. n \<notin> set grp) all)"
    using assms(3,4) by (auto simp: list_ex_iff startswith_def)
  moreover have "list_ex (\<lambda>name. endswith name []) (filter (\<lambda>n. n \<notin> set grp) all)"
    using assms(3,4) by (auto simp: list_ex_iff endswith_def)
  ultimately show ?thesis by (simp add: find_a_common_name_def Let_def assms(1,2))
qed

lemma dec_small: "dec 0 = ''0''" "dec (Suc 0) = ''1''" "dec 30 = ''30''"
  by (simp_all add: dec.simps digit_def)

lemma tiles_stage1_fails:
  assumes "3 \<le> n"
  shows "name_by_measurements (iter_names (tiles n)) (map tile_entry [Suc 0..<n])
           [(''default'', tile_entry 0)] = None"
proof -
  have m: "''a0x'' \<in> set (iter_names (tiles n))"
    using assms by (simp add: iter_names_def tiles_def upt_from_0 tile_entry_def dec_small)
  have "find_a_common_name [''a1x'', ''b1y''] (iter_names (tiles n)) = None"
    by (rule find_a_common_name_none [OF _ _ m]) (simp_all add: common_suffix_def)
  then show ?thesis by (simp add: upt_from_1 [OF assms] tile_entry_def dec_small)
qed

lemma tiles_stage2_fails:
  assumes "3 \<le> n"
  shows "name_by_resolution fs (map tile_entry [Suc 0..<n]) [(''default'', tile_entry 0)] = None"
proof -
  have r: "resolution_name fs (tile i) = ''30''" for i
    by (simp add: resolution_name_def tile_def dec_small)
  show ?thesis by (simp add: upt_from_1 [OF assms] tile_entry_def r has_key_def)
qed

lemma letters_zip:
  "length grids \<le> length names \<Longrightarrow>
     map (\<lambda>i. (names ! i, grids ! i)) [0..<length grids] = zip (take (length grids) names) grids"
  by (rule nth_equalityI) auto

lemma as_named_grids_letters:
  assumes "grids_by_frequency s = d # grids" and "grids \<noteq> []"
    and "name_by_measurements (iter_names s) grids [(''default'', d)] = None"
    and "name_by_resolution fs grids [(''default'', d)] = None"
  shows "as_named_grids fs s = name_by_letters d grids"
  by (simp add: as_named_grids_def assms)

lemma grid_names_eq:
  "grid_names = map (\<lambda>c. [c]) ''abcdefghijklmnopqrstuvwxyzABCDEFGHIJKLMNOPQRSTUVWXYZ''"
  by (simp add: grid_names_def ascii_letters_def)

lemma length_grid_names: "length grid_names = 52"
  by (simp add: grid_names_def ascii_letters_def)

lemma name_by_letters_eq:
  "name_by_letters d grids =
     (if 52 < length grids then Inl (TooManyGrids 52)
      else Inr ((''default'', d) #
                zip (map (\<lambda>c. [c])
                       (take (length grids) ''abcdefghijklmnopqrstuvwxyzABCDEFGHIJKLMNOPQRSTUVWXYZ''))
                    grids))"
proof (cases "52 < length grids")
  case True
  then show ?thesis by (simp add: name_by_letters_def length_grid_names)
next
  case False
  then have "length grids \<le> length grid_names" by (simp add: length_grid_names)
  then have z: "map (\<lambda>i. (grid_names ! i, grids ! i)) [0..<length grids]
                  = zip (take (length grids) grid_names) grids"
    by (rule letters_zip)
  have t: "take (length grids) grid_names
             = map (\<lambda>c. [c])
                 (take (length grids) ''abcdefghijklmnopqrstuvwxyzABCDEFGHIJKLMNOPQRSTUVWXYZ'')"
    by (simp only: grid_names_eq take_map)
  have "name_by_letters d grids
          = Inr ((''default'', d) # zip (take (length grids) grid_names) grids)"
    using False by (simp add: name_by_letters_def length_grid_names z)
  with False show ?thesis by (simp only: t if_False)
qed

lemma tiles_named:
  assumes "3 \<le> n"
  shows "as_named_grids fs (tiles n) = name_by_letters (tile_entry 0) (map tile_entry [Suc 0..<n])"
proof (rule as_named_grids_letters)
  show "grids_by_frequency (tiles n) = tile_entry 0 # map tile_entry [Suc 0..<n]"
    by (simp add: tiles_by_frequency upt_from_0 [OF assms])
  show "map tile_entry [Suc 0..<n] \<noteq> []" using assms by simp
qed (rule tiles_stage1_fails [OF assms], rule tiles_stage2_fails [OF assms])

lemma tiles_frequency_27:
  "grids_by_frequency (tiles 27) = tile_entry 0 # map tile_entry [Suc 0..<27]"
  by (simp add: tiles_by_frequency upt_from_0)

lemma tiles_27_named:
  "as_named_grids fs (tiles 27)
     = Inr ((''default'', tile_entry 0) #
            zip (map (\<lambda>c. [c]) ''abcdefghijklmnopqrstuvwxyz'') (map tile_entry [Suc 0..<27]))"
  by (simp add: tiles_named name_by_letters_eq)

lemma tiles_28_named:
  "as_named_grids fs (tiles 28)
     = Inr ((''default'', tile_entry 0) #
            zip (map (\<lambda>c. [c]) ''abcdefghijklmnopqrstuvwxyzA'') (map tile_entry [Suc 0..<28]))"
  by (simp add: tiles_named name_by_letters_eq)

lemma tiles_54_named: "as_named_grids fs (tiles 54) = Inl (TooManyGrids 52)"
  by (simp add: tiles_named name_by_letters_eq)

lemma tiles_distinct: "distinct (map fst (measurements_per_grid (tiles n)))"
  by (simp add: tiles_def distinct_map tile_entry_def comp_def inj_on_def tile_def)

text \<open>
  C4. Whenever \<open>_as_named_grids\<close> returns, its first entry is \<open>default\<close>, and the grid
  under that name is the first grid, in insertion order, that no grid exceeds in its
  number of measurements. When the first naming loop runs to its end, its names are the
  result, and a remaining grid with the single measurement \<open>n\<close> is the grid named \<open>n\<close>.
  Recording \<^verbatim>\<open>nbar_blue\<close> and \<^verbatim>\<open>nbar_red\<close> on grid A and \<^verbatim>\<open>nbart_blue\<close> on grid B gives
  \<open>default\<close> for A with both bands and \<^verbatim>\<open>nbart_blue\<close> for B.
\<close>

theorem default_and_single_measurement_names:
  "(as_named_grids fs s = Inr named \<longrightarrow>
      (\<exists>d. hd named = (''default'', d) \<and>
            find (\<lambda>e. \<forall>e'\<in>set (measurements_per_grid s). length (snd e') \<le> length (snd e))
              (measurements_per_grid s) = Some d)) \<and>
   (grids_by_frequency s = d' # grids \<and> grids \<noteq> [] \<and>
    name_by_measurements (iter_names s) grids [(''default'', d')] = Some named_one \<and>
    (g, [(n, loc)]) \<in> set grids \<longrightarrow>
      as_named_grids fs s = Inr named_one \<and> map_of named_one n = Some (g, [(n, loc)])) \<and>
   as_named_grids fs nbar_example
     = Inr [(''default'', grid_A_norm, [(''nbar_blue'', (''nbar_blue.tif'', None)),
                                        (''nbar_red'', (''nbar_red.tif'', None))]),
            (''nbart_blue'', grid_B_norm, [(''nbart_blue'', (''nbart_blue.tif'', None))])]"
proof (intro conjI impI)
  assume r: "as_named_grids fs s = Inr named"
  from as_named_grids_default [OF r] obtain d grids' new
    where "grids_by_frequency s = d # grids'" "named = (''default'', d) # new" by blast
  with default_is_first_largest [of s d grids']
  show "\<exists>d. hd named = (''default'', d) \<and>
            find (\<lambda>e. \<forall>e'\<in>set (measurements_per_grid s). length (snd e') \<le> length (snd e))
              (measurements_per_grid s) = Some d"
    by simp
next
  assume a: "grids_by_frequency s = d' # grids \<and> grids \<noteq> [] \<and>
    name_by_measurements (iter_names s) grids [(''default'', d')] = Some named_one \<and>
    (g, [(n, loc)]) \<in> set grids"
  then show "as_named_grids fs s = Inr named_one" by (simp add: as_named_grids_def)
  from a single_named show "map_of named_one n = Some (g, [(n, loc)])" by blast
next
  show "as_named_grids fs nbar_example
     = Inr [(''default'', grid_A_norm, [(''nbar_blue'', (''nbar_blue.tif'', None)),
                                        (''nbar_red'', (''nbar_red.tif'', None))]),
            (''nbart_blue'', grid_B_norm, [(''nbart_blue'', (''nbart_blue.tif'', None))])]"
    by (rule nbar_example_named)
qed

theorem default_and_single_measurement_names_witness:
  "as_named_grids no_float_str nbar_example
     = Inr [(''default'', entry_A), (''nbart_blue'', entry_B)] \<and>
   hd [(''default'', entry_A), (''nbart_blue'', entry_B)] = (''default'', entry_A) \<and>
   find (\<lambda>e. \<forall>e'\<in>set (measurements_per_grid nbar_example). length (snd e') \<le> length (snd e))
     (measurements_per_grid nbar_example) = Some entry_A \<and>
   grids_by_frequency nbar_example = entry_A # [entry_B] \<and>
   [entry_B] \<noteq> [] \<and>
   name_by_measurements (iter_names nbar_example) [entry_B] [(''default'', entry_A)]
     = Some [(''default'', entry_A), (''nbart_blue'', entry_B)] \<and>
   (grid_B_norm, [(''nbart_blue'', (''nbart_blue.tif'', None))]) \<in> set [entry_B] \<and>
   map_of [(''default'', entry_A), (''nbart_blue'', entry_B)] ''nbart_blue''
     = Some (grid_B_norm, [(''nbart_blue'', (''nbart_blue.tif'', None))])"
proof -
  have r: "as_named_grids no_float_str nbar_example
     = Inr [(''default'', entry_A), (''nbart_blue'', entry_B)]"
    by (simp add: nbar_example_named entry_A_def entry_B_def)
  have f: "grids_by_frequency nbar_example = entry_A # [entry_B]"
    by (simp add: nbar_example_frequency entry_A_def entry_B_def)
  have s1: "name_by_measurements (iter_names nbar_example) [entry_B] [(''default'', entry_A)]
     = Some [(''default'', entry_A), (''nbart_blue'', entry_B)]"
    using nbar_example_stage1 by (simp add: entry_A_def entry_B_def)
  have m: "(grid_B_norm, [(''nbart_blue'', (''nbart_blue.tif'', None))]) \<in> set [entry_B]"
    by (simp add: entry_B_def)
  note t = default_and_single_measurement_names [where fs = no_float_str and s = nbar_example
      and named = "[(''default'', entry_A), (''nbart_blue'', entry_B)]" and d' = entry_A
      and grids = "[entry_B]" and named_one = "[(''default'', entry_A), (''nbart_blue'', entry_B)]"
      and g = grid_B_norm and n = "''nbart_blue''" and loc = "(''nbart_blue.tif'', None)"]
  from t r have "find (\<lambda>e. \<forall>e'\<in>set (measurements_per_grid nbar_example).
                         length (snd e') \<le> length (snd e))
     (measurements_per_grid nbar_example) = Some entry_A"
    by simp
  moreover from t f s1 m
  have "map_of [(''default'', entry_A), (''nbart_blue'', entry_B)] ''nbart_blue''
     = Some (grid_B_norm, [(''nbart_blue'', (''nbart_blue.tif'', None))])"
    by blast
  ultimately show ?thesis using r f s1 m by simp
qed

text \<open>
  C1, as the code has it. When neither the measurement names nor the resolutions name
  the grids after the default one, they get the letters of \<^verbatim>\<open>string.ascii_letters\<close> in
  frequency order: \<open>a\<close> to \<open>z\<close>, then \<open>A\<close> to \<open>Z\<close>. There are 52 letters; with more
  remaining grids than that the method raises, and with 52 or fewer it does not.
\<close>

theorem letters_fallback:
  assumes "grids_by_frequency s = d # grids" and "grids \<noteq> []"
    and "name_by_measurements (iter_names s) grids [(''default'', d)] = None"
    and "name_by_resolution fs grids [(''default'', d)] = None"
  shows "as_named_grids fs s =
     (if 52 < length grids then Inl (TooManyGrids 52)
      else Inr ((''default'', d) #
                zip (map (\<lambda>c. [c])
                       (take (length grids) ''abcdefghijklmnopqrstuvwxyzABCDEFGHIJKLMNOPQRSTUVWXYZ''))
                    grids))"
  using as_named_grids_letters [OF assms] by (simp only: name_by_letters_eq)

theorem letters_fallback_witness:
  "grids_by_frequency (tiles 27) = tile_entry 0 # map tile_entry [Suc 0..<27] \<and>
   map tile_entry [Suc 0..<27] \<noteq> [] \<and>
   name_by_measurements (iter_names (tiles 27)) (map tile_entry [Suc 0..<27])
       [(''default'', tile_entry 0)] = None \<and>
   name_by_resolution no_float_str (map tile_entry [Suc 0..<27]) [(''default'', tile_entry 0)]
     = None \<and>
   as_named_grids no_float_str (tiles 27)
     = Inr ((''default'', tile_entry 0) #
            zip (map (\<lambda>c. [c]) ''abcdefghijklmnopqrstuvwxyz'') (map tile_entry [Suc 0..<27])) \<and>
   as_named_grids no_float_str (tiles 54) = Inl (TooManyGrids 52)"
proof -
  have ne: "map tile_entry [Suc 0..<27] \<noteq> []" by simp
  have s1: "name_by_measurements (iter_names (tiles 27)) (map tile_entry [Suc 0..<27])
       [(''default'', tile_entry 0)] = None"
    by (rule tiles_stage1_fails) simp
  have s2: "name_by_resolution no_float_str (map tile_entry [Suc 0..<27])
       [(''default'', tile_entry 0)] = None"
    by (rule tiles_stage2_fails) simp
  have a: "as_named_grids no_float_str (tiles 27)
     = Inr ((''default'', tile_entry 0) #
            zip (map (\<lambda>c. [c]) ''abcdefghijklmnopqrstuvwxyz'') (map tile_entry [Suc 0..<27]))"
    using letters_fallback [OF tiles_frequency_27 ne s1 s2] by simp
  have f54: "grids_by_frequency (tiles 54) = tile_entry 0 # map tile_entry [Suc 0..<54]"
    by (simp add: tiles_by_frequency upt_from_0)
  have ne54: "map tile_entry [Suc 0..<54] \<noteq> []" by simp
  have s1': "name_by_measurements (iter_names (tiles 54)) (map tile_entry [Suc 0..<54])
       [(''default'', tile_entry 0)] = None"
    by (rule tiles_stage1_fails) simp
  have s2': "name_by_resolution no_float_str (map tile_entry [Suc 0..<54])
       [(''default'', tile_entry 0)] = None"
    by (rule tiles_stage2_fails) simp
  have b: "as_named_grids no_float_str (tiles 54) = Inl (TooManyGrids 52)"
    using letters_fallback [OF f54 ne54 s1' s2'] by simp
  from tiles_frequency_27 ne s1 s2 a b show ?thesis by simp
qed

text \<open>
  The bundler with 27 tiles has 27 distinct grids that neither the measurement names nor
  the resolutions can name, and naming it raises nothing: the 26 grids after the default
  one are \<open>a\<close> to \<open>z\<close>. With 28 tiles the 27 remaining grids are more than 26, and still
  nothing is raised: the last one is \<open>A\<close>.
\<close>

theorem letters_27_grids_named:
  "length (measurements_per_grid (tiles 27)) = 27 \<and>
   distinct (map fst (measurements_per_grid (tiles 27))) \<and>
   name_by_measurements (iter_names (tiles 27)) (map tile_entry [Suc 0..<27])
       [(''default'', tile_entry 0)] = None \<and>
   name_by_resolution no_float_str (map tile_entry [Suc 0..<27]) [(''default'', tile_entry 0)]
     = None \<and>
   as_named_grids no_float_str (tiles 27)
     = Inr ((''default'', tile_entry 0) #
            zip (map (\<lambda>c. [c]) ''abcdefghijklmnopqrstuvwxyz'') (map tile_entry [Suc 0..<27])) \<and>
   length (map tile_entry [Suc 0..<28]) = 27 \<and>
   as_named_grids no_float_str (tiles 28)
     = Inr ((''default'', tile_entry 0) #
            zip (map (\<lambda>c. [c]) ''abcdefghijklmnopqrstuvwxyzA'') (map tile_entry [Suc 0..<28]))"
proof -
  have s1: "name_by_measurements (iter_names (tiles 27)) (map tile_entry [Suc 0..<27])
       [(''default'', tile_entry 0)] = None"
    by (rule tiles_stage1_fails) simp
  have s2: "name_by_resolution no_float_str (map tile_entry [Suc 0..<27])
       [(''default'', tile_entry 0)] = None"
    by (rule tiles_stage2_fails) simp
  have l: "length (measurements_per_grid (tiles 27)) = 27" by (simp add: tiles_def)
  from l tiles_distinct [of 27] s1 s2 tiles_27_named [of no_float_str]
    tiles_28_named [of no_float_str]
  show ?thesis by simp
qed

subsection \<open>The stretch range\<close>






















end
